theory Spec2Isabelle
  imports Main "HOL-Library.Finite_Map"
begin

section \<open>JavaScript values\<close>

text \<open>
  The client is untyped JavaScript: every argument may be any value, an omitted argument
  is \<open>undefined\<close>, and the code tests arguments for truthiness and interpolates them
  into template literals. The values modelled are plain data: \<open>undefined\<close>, \<open>null\<close>,
  booleans, numbers, strings, arrays and ordinary objects with own enumerable data
  properties (no functions, symbols or accessors; property order is not represented).

  Numbers are the safe integers, those of magnitude below \<open>2^53\<close>: these are exact
  in JavaScript and print in plain decimal. Fractions, \<open>NaN\<close>, the infinities and
  numbers large enough to print in exponent form are outside the type.
\<close>

typedef number = "{n :: int. \<bar>n\<bar> < 2 ^ 53}"
  morphisms int_of Number
  by (rule exI [where x = 0]) simp

datatype jsval =
    JUndefined
  | JNull
  | JBool bool
  | JNum number
  | JStr string
  | JArr "jsval list"
  | JObj "(string, jsval) fmap"

text \<open>The test performed by \<^verbatim>\<open>if (v)\<close> and \<^verbatim>\<open>v ? a : b\<close>.\<close>

fun truthy :: "jsval \<Rightarrow> bool" where
  "truthy JUndefined = False"
| "truthy JNull = False"
| "truthy (JBool b) = b"
| "truthy (JNum n) = (int_of n \<noteq> 0)"
| "truthy (JStr s) = (s \<noteq> [])"
| "truthy (JArr xs) = True"
| "truthy (JObj m) = True"

text \<open>A default parameter value \<^verbatim>\<open>(v = d)\<close>: used exactly when the argument is \<open>undefined\<close>.\<close>

fun dflt :: "jsval \<Rightarrow> jsval \<Rightarrow> jsval" where
  "dflt d JUndefined = d"
| "dflt d v = v"

text \<open>Decimal digits of a natural number, for numbers in template literals and array indices.\<close>

fun digits :: "nat \<Rightarrow> string" where
  "digits n =
     (if n < 10 then [''0123456789'' ! n]
      else digits (n div 10) @ [''0123456789'' ! (n mod 10)])"

declare digits.simps [simp del]

fun join :: "string \<Rightarrow> string list \<Rightarrow> string" where
  "join sep [] = []"
| "join sep [x] = x"
| "join sep (x # y # ys) = x @ sep @ join sep (y # ys)"

text \<open>The exception raised when a value cannot be converted to a string.\<close>

datatype error = TypeError

text \<open>The conversions of a list of values: the first exception, or all the strings.\<close>

fun collect :: "(error + string) list \<Rightarrow> error + string list" where
  "collect [] = Inr []"
| "collect (Inl e # rs) = Inl e"
| "collect (Inr s # rs) = (case collect rs of Inl e \<Rightarrow> Inl e | Inr ss \<Rightarrow> Inr (s # ss))"

text \<open>
  String conversion as done by a template literal \<^verbatim>\<open>`${v}`\<close>. An array joins the
  conversions of its elements with commas, \<open>null\<close> and \<open>undefined\<close> elements giving the
  empty string. An ordinary object is converted by its \<open>toString\<close> method: the inherited
  one gives \<^verbatim>\<open>[object Object]\<close>; an own property \<open>toString\<close> hides it, and as it
  holds data and cannot be called (and the inherited \<open>valueOf\<close> returns the object
  itself, an own data property \<open>valueOf\<close> cannot be called either), the conversion
  throws \<open>TypeError\<close>.
\<close>

fun to_string :: "jsval \<Rightarrow> error + string" where
  "to_string JUndefined = Inr ''undefined''"
| "to_string JNull = Inr ''null''"
| "to_string (JBool b) = Inr (if b then ''true'' else ''false'')"
| "to_string (JNum n) =
     Inr (if int_of n < 0 then ''-'' @ digits (nat (- int_of n)) else digits (nat (int_of n)))"
| "to_string (JStr s) = Inr s"
| "to_string (JArr xs) =
     (case collect
        (map (\<lambda>x. case x of JUndefined \<Rightarrow> Inr [] | JNull \<Rightarrow> Inr [] | _ \<Rightarrow> to_string x) xs)
      of Inl e \<Rightarrow> Inl e | Inr ss \<Rightarrow> Inr (join '','' ss))"
| "to_string (JObj m) =
     (if ''toString'' |\<in>| fmdom m then Inl TypeError else Inr ''[object Object]'')"

text \<open>
  The own enumerable properties copied by object spread \<^verbatim>\<open>{...v}\<close>: the properties
  of an object, the indexed elements of an array or string, nothing for other values.
\<close>

fun own_props :: "jsval \<Rightarrow> (string, jsval) fmap" where
  "own_props (JObj m) = m"
| "own_props (JArr xs) = fmap_of_list (zip (map digits [0..<length xs]) xs)"
| "own_props (JStr s) =
     fmap_of_list (zip (map digits [0..<length s]) (map (\<lambda>c. JStr [c]) s))"
| "own_props v = fmempty"

text \<open>\<^verbatim>\<open>{...a, ...b}\<close>: the properties of \<open>a\<close>, then those of \<open>b\<close> written over them.\<close>

definition spread :: "jsval \<Rightarrow> jsval \<Rightarrow> (string, jsval) fmap" where
  "spread a b = own_props a ++\<^sub>f own_props b"


section \<open>The endpoint registry\<close>

definition BASE_URL :: string where
  "BASE_URL = ''https://api.dify.ai/v1''"

text \<open>A URL builder is a template literal over its arguments, so it can throw.\<close>

record route =
  route_method :: string
  route_url :: "jsval list \<Rightarrow> error + string"

datatype route_key =
    Application
  | Feedback
  | CreateCompletionMessage
  | CreateChatMessage
  | GetConversationMessages
  | GetConversations
  | RenameConversation
  | DeleteConversation
  | FileUpload
  | RunWorkflow

text \<open>The \<open>i\<close>-th actual argument of a call; a missing one is \<open>undefined\<close>.\<close>

definition param :: "jsval list \<Rightarrow> nat \<Rightarrow> jsval" where
  "param args i = (if i < length args then args ! i else JUndefined)"

fun routes :: "route_key \<Rightarrow> route" where
  "routes Application =
     \<lparr>route_method = ''GET'', route_url = (\<lambda>args. Inr ''/parameters'')\<rparr>"
| "routes Feedback =
     \<lparr>route_method = ''POST'',
      route_url = (\<lambda>args. case to_string (param args 0) of
                     Inl e \<Rightarrow> Inl e
                   | Inr message_id \<Rightarrow> Inr (''/messages/'' @ message_id @ ''/feedbacks''))\<rparr>"
| "routes CreateCompletionMessage =
     \<lparr>route_method = ''POST'', route_url = (\<lambda>args. Inr ''/completion-messages'')\<rparr>"
| "routes CreateChatMessage =
     \<lparr>route_method = ''POST'', route_url = (\<lambda>args. Inr ''/chat-messages'')\<rparr>"
| "routes GetConversationMessages =
     \<lparr>route_method = ''GET'', route_url = (\<lambda>args. Inr ''/messages'')\<rparr>"
| "routes GetConversations =
     \<lparr>route_method = ''GET'', route_url = (\<lambda>args. Inr ''/conversations'')\<rparr>"
| "routes RenameConversation =
     \<lparr>route_method = ''POST'',
      route_url = (\<lambda>args. case to_string (param args 0) of
                     Inl e \<Rightarrow> Inl e
                   | Inr conversation_id \<Rightarrow>
                       Inr (''/conversations/'' @ conversation_id @ ''/name''))\<rparr>"
| "routes DeleteConversation =
     \<lparr>route_method = ''DELETE'',
      route_url = (\<lambda>args. case to_string (param args 0) of
                     Inl e \<Rightarrow> Inl e
                   | Inr conversation_id \<Rightarrow> Inr (''/conversations/'' @ conversation_id))\<rparr>"
| "routes FileUpload =
     \<lparr>route_method = ''POST'', route_url = (\<lambda>args. Inr ''/files/upload'')\<rparr>"
| "routes RunWorkflow =
     \<lparr>route_method = ''POST'', route_url = (\<lambda>args. Inr ''/workflows/run'')\<rparr>"


section \<open>The client and the transport\<close>

record client =
  apiKey :: jsval
  baseUrl :: jsval

definition DifyClient :: "jsval \<Rightarrow> jsval \<Rightarrow> client" where
  "DifyClient key base = \<lparr>apiKey = key, baseUrl = dflt (JStr BASE_URL) base\<rparr>"

text \<open>The configuration object handed to the HTTP library.\<close>

record request =
  req_method :: jsval
  req_url :: string
  req_data :: jsval
  req_params :: jsval
  req_headers :: "(string, jsval) fmap"
  req_responseType :: string

text \<open>
  The state an operation can touch: the client instance and the outside world, of which
  the sequence of requests handed to the HTTP library so far is recorded.
\<close>

record world =
  self :: client
  sent :: "request list"

text \<open>
  The HTTP library is external. It is a parameter: any function that, from the requests
  issued before and the current request, decides whether the promise is rejected with an
  error (\<open>Inl\<close>) or fulfilled with a response (\<open>Inr\<close>). A call to it is recorded.
\<close>

type_synonym ('e, 'r) transport = "request list \<Rightarrow> request \<Rightarrow> 'e + 'r"

definition axios :: "('e, 'r) transport \<Rightarrow> request \<Rightarrow> world \<Rightarrow> ('e + 'r) \<times> world" where
  "axios T req w = (T (sent w) req, w\<lparr>sent := sent w @ [req]\<rparr>)"

text \<open>
  How a call of an operation ends: it throws before returning a promise, or it returns a
  promise that is rejected, with an exception raised inside the dispatcher (\<open>Inl\<close>) or
  with the error of the transport (\<open>Inr\<close>), or a promise fulfilled with a response.
\<close>

datatype ('e, 'r) outcome =
    Thrown error
  | Rejected "error + 'e"
  | Fulfilled 'r

text \<open>
  \<^verbatim>\<open>response = await axios(...); return response\<close> inside the asynchronous
  dispatcher, with no handler around it: the outcome of the HTTP call is the outcome of
  the promise the dispatcher returned.
\<close>

definition await :: "('e + 'r) \<times> world \<Rightarrow> ('e, 'r) outcome \<times> world" where
  "await p = (case fst p of Inl e \<Rightarrow> Rejected (Inr e) | Inr r \<Rightarrow> Fulfilled r, snd p)"

text \<open>
  \<open>updateApiKey\<close> is synchronous; its result is \<open>Inr ()\<close> for a normal return and
  \<open>Inl e\<close> for a thrown \<open>e\<close>. The body is a single assignment.
\<close>

definition updateApiKey :: "jsval \<Rightarrow> world \<Rightarrow> (jsval + unit) \<times> world" where
  "updateApiKey key w = (Inr (), w\<lparr>self := (self w)\<lparr>apiKey := key\<rparr>\<rparr>)"

text \<open>The actual arguments of a call of \<open>sendRequest\<close>; an omitted one is \<open>undefined\<close>.\<close>

record call =
  arg_method :: jsval
  arg_endpoint :: jsval
  arg_data :: jsval
  arg_params :: jsval
  arg_stream :: jsval
  arg_headerParams :: jsval

text \<open>
  The dispatcher. It is asynchronous, so an exception raised while the headers or the
  URL are built rejects the returned promise, and no request is issued. The key is
  converted first, then the base URL, then the endpoint.
\<close>

definition sendRequest ::
  "('e, 'r) transport \<Rightarrow> call \<Rightarrow> world \<Rightarrow> ('e, 'r) outcome \<times> world" where
  "sendRequest T a w =
     (let method = arg_method a;
          endpoint = arg_endpoint a;
          data = dflt JNull (arg_data a);
          params = dflt JNull (arg_params a);
          stream = dflt (JBool False) (arg_stream a);
          headerParams = dflt (JObj fmempty) (arg_headerParams a)
      in case to_string (apiKey (self w)) of
           Inl e \<Rightarrow> (Rejected (Inl e), w)
         | Inr key \<Rightarrow>
             (let headers =
                    spread
                      (JObj (fmap_of_list
                         [(''Authorization'', JStr (''Bearer '' @ key)),
                          (''Content-Type'', JStr ''application/json'')]))
                      headerParams
              in case to_string (baseUrl (self w)) of
                   Inl e \<Rightarrow> (Rejected (Inl e), w)
                 | Inr base \<Rightarrow>
                     (case to_string endpoint of
                        Inl e \<Rightarrow> (Rejected (Inl e), w)
                      | Inr path \<Rightarrow>
                          (let url = base @ path
                           in if truthy stream then
                                await (axios T
                                  \<lparr>req_method = method, req_url = url, req_data = data,
                                   req_params = params, req_headers = headers,
                                   req_responseType = ''stream''\<rparr> w)
                              else
                                await (axios T
                                  \<lparr>req_method = method, req_url = url, req_data = data,
                                   req_params = params, req_headers = headers,
                                   req_responseType = ''json''\<rparr> w)))))"

text \<open>
  An operation evaluates the arguments of its call of \<open>sendRequest\<close>, which throws when
  the URL builder does, and then makes the call. The arguments are given by the function
  named \<open>_call\<close>; \<open>dispatch\<close> is the call itself.
\<close>

definition dispatch ::
  "('e, 'r) transport \<Rightarrow> error + call \<Rightarrow> world \<Rightarrow> ('e, 'r) outcome \<times> world" where
  "dispatch T c w = (case c of Inl e \<Rightarrow> (Thrown e, w) | Inr a \<Rightarrow> sendRequest T a w)"


section \<open>Operations of the base client\<close>

definition messageFeedback_call :: "jsval \<Rightarrow> jsval \<Rightarrow> jsval \<Rightarrow> error + call" where
  "messageFeedback_call message_id rating user =
     (let data = JObj (fmap_of_list [(''rating'', rating), (''user'', user)])
      in case route_url (routes Feedback) [message_id] of
           Inl e \<Rightarrow> Inl e
         | Inr url \<Rightarrow>
             Inr \<lparr>arg_method = JStr (route_method (routes Feedback)),
                  arg_endpoint = JStr url,
                  arg_data = data,
                  arg_params = JUndefined, arg_stream = JUndefined,
                  arg_headerParams = JUndefined\<rparr>)"

definition messageFeedback ::
  "('e, 'r) transport \<Rightarrow> jsval \<Rightarrow> jsval \<Rightarrow> jsval \<Rightarrow> world \<Rightarrow> ('e, 'r) outcome \<times> world"
  where
  "messageFeedback T message_id rating user =
     dispatch T (messageFeedback_call message_id rating user)"

definition getApplicationParameters_call :: "jsval \<Rightarrow> error + call" where
  "getApplicationParameters_call user =
     (let params = JObj (fmap_of_list [(''user'', user)])
      in case route_url (routes Application) [] of
           Inl e \<Rightarrow> Inl e
         | Inr url \<Rightarrow>
             Inr \<lparr>arg_method = JStr (route_method (routes Application)),
                  arg_endpoint = JStr url,
                  arg_data = JNull,
                  arg_params = params,
                  arg_stream = JUndefined, arg_headerParams = JUndefined\<rparr>)"

definition getApplicationParameters ::
  "('e, 'r) transport \<Rightarrow> jsval \<Rightarrow> world \<Rightarrow> ('e, 'r) outcome \<times> world" where
  "getApplicationParameters T user = dispatch T (getApplicationParameters_call user)"

definition fileUpload_call :: "jsval \<Rightarrow> error + call" where
  "fileUpload_call data =
     (case route_url (routes FileUpload) [] of
        Inl e \<Rightarrow> Inl e
      | Inr url \<Rightarrow>
          Inr \<lparr>arg_method = JStr (route_method (routes FileUpload)),
               arg_endpoint = JStr url,
               arg_data = data,
               arg_params = JNull,
               arg_stream = JBool False,
               arg_headerParams =
                 JObj (fmap_of_list [(''Content-Type'', JStr ''multipart/form-data'')])\<rparr>)"

definition fileUpload ::
  "('e, 'r) transport \<Rightarrow> jsval \<Rightarrow> world \<Rightarrow> ('e, 'r) outcome \<times> world" where
  "fileUpload T data = dispatch T (fileUpload_call data)"


section \<open>Operations of the completion client\<close>

definition createCompletionMessage_call ::
  "jsval \<Rightarrow> jsval \<Rightarrow> jsval \<Rightarrow> jsval \<Rightarrow> error + call" where
  "createCompletionMessage_call inputs user stream0 files0 =
     (let stream = dflt (JBool False) stream0;
          files = dflt JNull files0;
          data = JObj (fmap_of_list
            [(''inputs'', inputs),
             (''user'', user),
             (''response_mode'', JStr (if truthy stream then ''streaming'' else ''blocking'')),
             (''files'', files)])
      in case route_url (routes CreateCompletionMessage) [] of
           Inl e \<Rightarrow> Inl e
         | Inr url \<Rightarrow>
             Inr \<lparr>arg_method = JStr (route_method (routes CreateCompletionMessage)),
                  arg_endpoint = JStr url,
                  arg_data = data,
                  arg_params = JNull,
                  arg_stream = stream,
                  arg_headerParams = JUndefined\<rparr>)"

definition createCompletionMessage ::
  "('e, 'r) transport \<Rightarrow> jsval \<Rightarrow> jsval \<Rightarrow> jsval \<Rightarrow> jsval \<Rightarrow> world
     \<Rightarrow> ('e, 'r) outcome \<times> world" where
  "createCompletionMessage T inputs user stream0 files0 =
     dispatch T (createCompletionMessage_call inputs user stream0 files0)"

definition runWorkflow_call :: "jsval \<Rightarrow> jsval \<Rightarrow> jsval \<Rightarrow> jsval \<Rightarrow> error + call" where
  "runWorkflow_call inputs user stream0 files0 =
     (let stream = dflt (JBool False) stream0;
          files = dflt JNull files0;
          data = JObj (fmap_of_list
            [(''inputs'', inputs),
             (''user'', user),
             (''response_mode'', JStr (if truthy stream then ''streaming'' else ''blocking''))])
      in case route_url (routes RunWorkflow) [] of
           Inl e \<Rightarrow> Inl e
         | Inr url \<Rightarrow>
             Inr \<lparr>arg_method = JStr (route_method (routes RunWorkflow)),
                  arg_endpoint = JStr url,
                  arg_data = data,
                  arg_params = JNull,
                  arg_stream = stream,
                  arg_headerParams = JUndefined\<rparr>)"

definition runWorkflow ::
  "('e, 'r) transport \<Rightarrow> jsval \<Rightarrow> jsval \<Rightarrow> jsval \<Rightarrow> jsval \<Rightarrow> world
     \<Rightarrow> ('e, 'r) outcome \<times> world" where
  "runWorkflow T inputs user stream0 files0 =
     dispatch T (runWorkflow_call inputs user stream0 files0)"


section \<open>Operations of the chat client\<close>

definition createChatMessage_call ::
  "jsval \<Rightarrow> jsval \<Rightarrow> jsval \<Rightarrow> jsval \<Rightarrow> jsval \<Rightarrow> jsval \<Rightarrow> error + call" where
  "createChatMessage_call inputs query user stream0 conversation_id0 files0 =
     (let stream = dflt (JBool False) stream0;
          conversation_id = dflt JNull conversation_id0;
          files = dflt JNull files0;
          data = fmap_of_list
            [(''inputs'', inputs),
             (''query'', query),
             (''user'', user),
             (''response_mode'', JStr (if truthy stream then ''streaming'' else ''blocking'')),
             (''files'', files)];
          data = (if truthy conversation_id
                  then fmupd ''conversation_id'' conversation_id data else data)
      in case route_url (routes CreateChatMessage) [] of
           Inl e \<Rightarrow> Inl e
         | Inr url \<Rightarrow>
             Inr \<lparr>arg_method = JStr (route_method (routes CreateChatMessage)),
                  arg_endpoint = JStr url,
                  arg_data = JObj data,
                  arg_params = JNull,
                  arg_stream = stream,
                  arg_headerParams = JUndefined\<rparr>)"

definition createChatMessage ::
  "('e, 'r) transport \<Rightarrow> jsval \<Rightarrow> jsval \<Rightarrow> jsval \<Rightarrow> jsval \<Rightarrow> jsval \<Rightarrow> jsval \<Rightarrow> world
     \<Rightarrow> ('e, 'r) outcome \<times> world" where
  "createChatMessage T inputs query user stream0 conversation_id0 files0 =
     dispatch T (createChatMessage_call inputs query user stream0 conversation_id0 files0)"

definition getConversationMessages_call ::
  "jsval \<Rightarrow> jsval \<Rightarrow> jsval \<Rightarrow> jsval \<Rightarrow> error + call" where
  "getConversationMessages_call user conversation_id0 first_id0 limit0 =
     (let conversation_id = dflt (JStr []) conversation_id0;
          first_id = dflt JNull first_id0;
          limit = dflt JNull limit0;
          params = fmap_of_list [(''user'', user)];
          params = (if truthy conversation_id
                    then fmupd ''conversation_id'' conversation_id params else params);
          params = (if truthy first_id then fmupd ''first_id'' first_id params else params);
          params = (if truthy limit then fmupd ''limit'' limit params else params)
      in case route_url (routes GetConversationMessages) [] of
           Inl e \<Rightarrow> Inl e
         | Inr url \<Rightarrow>
             Inr \<lparr>arg_method = JStr (route_method (routes GetConversationMessages)),
                  arg_endpoint = JStr url,
                  arg_data = JNull,
                  arg_params = JObj params,
                  arg_stream = JUndefined, arg_headerParams = JUndefined\<rparr>)"

definition getConversationMessages ::
  "('e, 'r) transport \<Rightarrow> jsval \<Rightarrow> jsval \<Rightarrow> jsval \<Rightarrow> jsval \<Rightarrow> world
     \<Rightarrow> ('e, 'r) outcome \<times> world" where
  "getConversationMessages T user conversation_id0 first_id0 limit0 =
     dispatch T (getConversationMessages_call user conversation_id0 first_id0 limit0)"

definition getConversations_call :: "jsval \<Rightarrow> jsval \<Rightarrow> jsval \<Rightarrow> jsval \<Rightarrow> error + call" where
  "getConversations_call user first_id0 limit0 pinned0 =
     (let first_id = dflt JNull first_id0;
          limit = dflt JNull limit0;
          pinned = dflt JNull pinned0;
          params = JObj (fmap_of_list
            [(''user'', user), (''first_id'', first_id), (''limit'', limit),
             (''pinned'', pinned)])
      in case route_url (routes GetConversations) [] of
           Inl e \<Rightarrow> Inl e
         | Inr url \<Rightarrow>
             Inr \<lparr>arg_method = JStr (route_method (routes GetConversations)),
                  arg_endpoint = JStr url,
                  arg_data = JNull,
                  arg_params = params,
                  arg_stream = JUndefined, arg_headerParams = JUndefined\<rparr>)"

definition getConversations ::
  "('e, 'r) transport \<Rightarrow> jsval \<Rightarrow> jsval \<Rightarrow> jsval \<Rightarrow> jsval \<Rightarrow> world
     \<Rightarrow> ('e, 'r) outcome \<times> world" where
  "getConversations T user first_id0 limit0 pinned0 =
     dispatch T (getConversations_call user first_id0 limit0 pinned0)"

definition renameConversation_call ::
  "jsval \<Rightarrow> jsval \<Rightarrow> jsval \<Rightarrow> jsval \<Rightarrow> error + call" where
  "renameConversation_call conversation_id name user auto_generate =
     (let data = JObj (fmap_of_list
            [(''name'', name), (''user'', user), (''auto_generate'', auto_generate)])
      in case route_url (routes RenameConversation) [conversation_id] of
           Inl e \<Rightarrow> Inl e
         | Inr url \<Rightarrow>
             Inr \<lparr>arg_method = JStr (route_method (routes RenameConversation)),
                  arg_endpoint = JStr url,
                  arg_data = data,
                  arg_params = JUndefined, arg_stream = JUndefined,
                  arg_headerParams = JUndefined\<rparr>)"

definition renameConversation ::
  "('e, 'r) transport \<Rightarrow> jsval \<Rightarrow> jsval \<Rightarrow> jsval \<Rightarrow> jsval \<Rightarrow> world
     \<Rightarrow> ('e, 'r) outcome \<times> world" where
  "renameConversation T conversation_id name user auto_generate =
     dispatch T (renameConversation_call conversation_id name user auto_generate)"

definition deleteConversation_call :: "jsval \<Rightarrow> jsval \<Rightarrow> error + call" where
  "deleteConversation_call conversation_id user =
     (let data = JObj (fmap_of_list [(''user'', user)])
      in case route_url (routes DeleteConversation) [conversation_id] of
           Inl e \<Rightarrow> Inl e
         | Inr url \<Rightarrow>
             Inr \<lparr>arg_method = JStr (route_method (routes DeleteConversation)),
                  arg_endpoint = JStr url,
                  arg_data = data,
                  arg_params = JUndefined, arg_stream = JUndefined,
                  arg_headerParams = JUndefined\<rparr>)"

definition deleteConversation ::
  "('e, 'r) transport \<Rightarrow> jsval \<Rightarrow> jsval \<Rightarrow> world \<Rightarrow> ('e, 'r) outcome \<times> world" where
  "deleteConversation T conversation_id user =
     dispatch T (deleteConversation_call conversation_id user)"


section \<open>Sequences of calls on one client\<close>

datatype command =
    Do_updateApiKey jsval
  | Do_sendRequest call
  | Do_messageFeedback jsval jsval jsval
  | Do_getApplicationParameters jsval
  | Do_fileUpload jsval
  | Do_createCompletionMessage jsval jsval jsval jsval
  | Do_runWorkflow jsval jsval jsval jsval
  | Do_createChatMessage jsval jsval jsval jsval jsval jsval
  | Do_getConversationMessages jsval jsval jsval jsval
  | Do_getConversations jsval jsval jsval jsval
  | Do_renameConversation jsval jsval jsval jsval
  | Do_deleteConversation jsval jsval

fun step :: "('e, 'r) transport \<Rightarrow> command \<Rightarrow> world \<Rightarrow> world" where
  "step T (Do_updateApiKey k) w = snd (updateApiKey k w)"
| "step T (Do_sendRequest a) w = snd (sendRequest T a w)"
| "step T (Do_messageFeedback m r u) w = snd (messageFeedback T m r u w)"
| "step T (Do_getApplicationParameters u) w = snd (getApplicationParameters T u w)"
| "step T (Do_fileUpload d) w = snd (fileUpload T d w)"
| "step T (Do_createCompletionMessage i u s f) w = snd (createCompletionMessage T i u s f w)"
| "step T (Do_runWorkflow i u s f) w = snd (runWorkflow T i u s f w)"
| "step T (Do_createChatMessage i q u s c f) w = snd (createChatMessage T i q u s c f w)"
| "step T (Do_getConversationMessages u c f l) w = snd (getConversationMessages T u c f l w)"
| "step T (Do_getConversations u f l p) w = snd (getConversations T u f l p w)"
| "step T (Do_renameConversation c n u g) w = snd (renameConversation T c n u g w)"
| "step T (Do_deleteConversation c u) w = snd (deleteConversation T c u w)"

definition run :: "('e, 'r) transport \<Rightarrow> command list \<Rightarrow> world \<Rightarrow> world" where
  "run T cmds w = fold (step T) cmds w"

text \<open>
  The key most recently set by a sequence of calls, written from the words of the
  specification: the argument of the last \<open>updateApiKey\<close> among them, and the key \<open>k\<close>
  the client held before when there is none.
\<close>

fun latest_key :: "jsval \<Rightarrow> command list \<Rightarrow> jsval" where
  "latest_key k [] = k"
| "latest_key k (Do_updateApiKey k' # cs) = latest_key k' cs"
| "latest_key k (c # cs) = latest_key k cs"

definition authorization :: "request \<Rightarrow> jsval option" where
  "authorization r = fmlookup (req_headers r) ''Authorization''"

text \<open>Whether the extra headers of a direct dispatcher call carry their own \<open>Authorization\<close>.\<close>

definition overrides_authorization :: "call \<Rightarrow> bool" where
  "overrides_authorization a =
     (''Authorization'' |\<in>| fmdom (own_props (dflt (JObj fmempty) (arg_headerParams a))))"

text \<open>
  The arguments with which a call reaches the dispatcher, or the exception thrown while
  they are evaluated; none for \<open>updateApiKey\<close>, which does not dispatch.
\<close>

fun call_of :: "command \<Rightarrow> (error + call) option" where
  "call_of (Do_updateApiKey k) = None"
| "call_of (Do_sendRequest a) = Some (Inr a)"
| "call_of (Do_messageFeedback m r u) = Some (messageFeedback_call m r u)"
| "call_of (Do_getApplicationParameters u) = Some (getApplicationParameters_call u)"
| "call_of (Do_fileUpload d) = Some (fileUpload_call d)"
| "call_of (Do_createCompletionMessage i u s f) = Some (createCompletionMessage_call i u s f)"
| "call_of (Do_runWorkflow i u s f) = Some (runWorkflow_call i u s f)"
| "call_of (Do_createChatMessage i q u s c f) = Some (createChatMessage_call i q u s c f)"
| "call_of (Do_getConversationMessages u c f l) = Some (getConversationMessages_call u c f l)"
| "call_of (Do_getConversations u f l p) = Some (getConversations_call u f l p)"
| "call_of (Do_renameConversation c n u g) = Some (renameConversation_call c n u g)"
| "call_of (Do_deleteConversation c u) = Some (deleteConversation_call c u)"


section \<open>Concrete transports and inputs for worked instances\<close>

definition accept_all :: "(jsval, jsval) transport" where
  "accept_all history req = Inr JNull"

definition reject_all :: "(jsval, jsval) transport" where
  "reject_all history req = Inl (JStr ''status 500'')"

text \<open>A freshly constructed client holding the key \<open>k1\<close>, before any request.\<close>

definition fresh :: world where
  "fresh = \<lparr>self = DifyClient (JStr ''k1'') JUndefined, sent = []\<rparr>"

text \<open>A direct dispatcher call whose extra headers carry an \<open>Authorization\<close> of their own.\<close>

definition override_call :: call where
  "override_call =
     \<lparr>arg_method = JStr ''GET'', arg_endpoint = JStr ''/parameters'',
      arg_data = JUndefined, arg_params = JUndefined, arg_stream = JUndefined,
      arg_headerParams = JObj (fmap_of_list [(''Authorization'', JStr ''Basic abc'')])\<rparr>"

text \<open>A value that cannot be converted to a string: an object with a data property \<open>toString\<close>.\<close>

definition unprintable :: jsval where
  "unprintable = JObj (fmap_of_list [(''toString'', JStr ''x'')])"


section \<open>Basic facts\<close>

lemma truthy_dflt_null [simp]: "truthy (dflt JNull v) = truthy v"
  by (cases v) simp_all

lemma truthy_dflt_empty [simp]: "truthy (dflt (JStr []) v) = truthy v"
  by (cases v) simp_all

lemma truthy_dflt_id: "truthy v \<Longrightarrow> dflt d v = v"
  by (cases v) simp_all

text \<open>
  When the key, the base URL and the endpoint convert to strings, one call of the
  dispatcher appends exactly this request to those already issued.
\<close>

lemma sendRequest_sent:
  assumes "to_string (apiKey (self w)) = Inr key"
    and "to_string (baseUrl (self w)) = Inr base"
    and "to_string (arg_endpoint a) = Inr path"
  shows "sent (snd (sendRequest T a w)) =
     sent w @
       [\<lparr>req_method = arg_method a,
         req_url = base @ path,
         req_data = dflt JNull (arg_data a),
         req_params = dflt JNull (arg_params a),
         req_headers =
           fmap_of_list
             [(''Authorization'', JStr (''Bearer '' @ key)),
              (''Content-Type'', JStr ''application/json'')]
           ++\<^sub>f own_props (dflt (JObj fmempty) (arg_headerParams a)),
         req_responseType =
           (if truthy (dflt (JBool False) (arg_stream a)) then ''stream'' else ''json'')\<rparr>]"
  using assms by (simp add: sendRequest_def axios_def await_def spread_def Let_def)

text \<open>
  When one of them does not convert, the returned promise is rejected with \<open>TypeError\<close>
  and nothing is issued; when the identifier in a path does not convert, the operation
  throws before it reaches the dispatcher.
\<close>

lemma only_TypeError: "(e :: error) = TypeError"
  by (cases e) simp

lemma sendRequest_rejects_unconvertible:
  assumes "to_string (apiKey (self w)) = Inl e \<or> to_string (baseUrl (self w)) = Inl e
     \<or> to_string (arg_endpoint a) = Inl e"
  shows "sendRequest T a w = (Rejected (Inl TypeError), w)"
  using assms
  by (auto simp add: sendRequest_def Let_def only_TypeError [of e] split: sum.splits
      intro: only_TypeError)

lemma operations_throw_on_unconvertible_id:
  assumes "to_string i = Inl e"
  shows "messageFeedback T i rating user w = (Thrown TypeError, w)"
    and "renameConversation T i name user autoGenerate w = (Thrown TypeError, w)"
    and "deleteConversation T i user w = (Thrown TypeError, w)"
  using assms only_TypeError [of e]
  by (simp_all add: messageFeedback_def messageFeedback_call_def renameConversation_def
      renameConversation_call_def deleteConversation_def deleteConversation_call_def
      dispatch_def param_def)

lemma sendRequest_self: "self (snd (sendRequest T a w)) = self w"
  by (simp add: sendRequest_def axios_def await_def Let_def split: sum.splits)

lemma dispatch_self: "self (snd (dispatch T c w)) = self w"
  by (simp add: dispatch_def sendRequest_self split: sum.splits)


section \<open>The API key update\<close>

text \<open>
  C1. The specification states that \<open>updateApiKey\<close> with an empty or missing key fails
  and leaves the stored key unchanged, and with a non-empty key succeeds and stores it;
  the documentation comment of the method promises the error as well. The body is a
  single assignment without any check. Evaluated on a client holding the key \<open>k1\<close>:
  both the empty string and \<open>undefined\<close> are accepted, the call returns normally, and
  the stored key is overwritten.
\<close>

theorem updateApiKey_accepts_empty_key:
  "updateApiKey (JStr []) \<lparr>self = DifyClient (JStr ''k1'') JUndefined, sent = []\<rparr>
     = (Inr (), \<lparr>self = \<lparr>apiKey = JStr [], baseUrl = JStr BASE_URL\<rparr>, sent = []\<rparr>)
   \<and> updateApiKey JUndefined \<lparr>self = DifyClient (JStr ''k1'') JUndefined, sent = []\<rparr>
     = (Inr (), \<lparr>self = \<lparr>apiKey = JUndefined, baseUrl = JStr BASE_URL\<rparr>, sent = []\<rparr>)"
  by (simp add: updateApiKey_def DifyClient_def)


section \<open>Payload shaping\<close>



text \<open>
  C3. On a ready client, \<open>getConversationMessages\<close> issues one request whose query
  object always holds \<open>user\<close>; it holds \<open>conversation_id\<close>, \<open>first_id\<close> and
  \<open>limit\<close> exactly when the corresponding argument is truthy, with that argument as
  value, and it holds no other key. \<open>getConversations\<close> issues one request whose query
  object always has exactly the four keys \<open>user\<close>, \<open>first_id\<close>, \<open>limit\<close> and
  \<open>pinned\<close>; a key whose argument is omitted or \<open>null\<close> is present and holds \<open>null\<close>.
\<close>

theorem query_objects_of_the_listings:
  assumes "to_string (apiKey (self w)) = Inr key"
    and "to_string (baseUrl (self w)) = Inr base"
  shows
  "length (sent (snd (getConversationMessages T user cid fid lim w))) = Suc (length (sent w))
   \<and> fmlookup (own_props (req_params
        (last (sent (snd (getConversationMessages T user cid fid lim w)))))) ''user''
      = Some user
   \<and> fmlookup (own_props (req_params
        (last (sent (snd (getConversationMessages T user cid fid lim w))))))
        ''conversation_id'' = (if truthy cid then Some cid else None)
   \<and> fmlookup (own_props (req_params
        (last (sent (snd (getConversationMessages T user cid fid lim w))))))
        ''first_id'' = (if truthy fid then Some fid else None)
   \<and> fmlookup (own_props (req_params
        (last (sent (snd (getConversationMessages T user cid fid lim w))))))
        ''limit'' = (if truthy lim then Some lim else None)
   \<and> fmdom (own_props (req_params
        (last (sent (snd (getConversationMessages T user cid fid lim w))))))
        |\<subseteq>| {|''user'', ''conversation_id'', ''first_id'', ''limit''|}
   \<and> length (sent (snd (getConversations T user fid lim pin w))) = Suc (length (sent w))
   \<and> fmdom (own_props (req_params
        (last (sent (snd (getConversations T user fid lim pin w))))))
        = {|''user'', ''first_id'', ''limit'', ''pinned''|}
   \<and> fmlookup (own_props (req_params
        (last (sent (snd (getConversations T user fid lim pin w)))))) ''user''
        = Some user
   \<and> fmlookup (own_props (req_params
        (last (sent (snd (getConversations T user fid lim pin w)))))) ''first_id''
        = Some (dflt JNull fid)
   \<and> fmlookup (own_props (req_params
        (last (sent (snd (getConversations T user fid lim pin w)))))) ''limit''
        = Some (dflt JNull lim)
   \<and> fmlookup (own_props (req_params
        (last (sent (snd (getConversations T user fid lim pin w)))))) ''pinned''
        = Some (dflt JNull pin)
   \<and> fmlookup (own_props (req_params
        (last (sent (snd (getConversations T user JNull JUndefined JNull w)))))) ''limit''
        = Some JNull"
  using assms
  by (auto simp add: getConversationMessages_def getConversationMessages_call_def
      getConversations_def getConversations_call_def dispatch_def sendRequest_sent Let_def
      truthy_dflt_id)

theorem query_objects_of_the_listings_witness:
  "fmlookup (own_props (req_params (last (sent (snd
       (getConversationMessages accept_all (JStr ''u1'') (JStr []) JNull JUndefined fresh))))))
       ''conversation_id'' = None
   \<and> fmlookup (own_props (req_params (last (sent (snd
       (getConversationMessages accept_all (JStr ''u1'') (JStr ''c1'') JNull JUndefined
          fresh)))))) ''conversation_id'' = Some (JStr ''c1'')
   \<and> fmlookup (own_props (req_params (last (sent (snd
       (getConversations accept_all (JStr ''u1'') JUndefined JUndefined JUndefined fresh))))))
       ''pinned'' = Some JNull"
  using query_objects_of_the_listings [where w = fresh and key = "''k1''" and base = BASE_URL and T = accept_all
        and user = "JStr ''u1''" and cid = "JStr []" and fid = JNull and lim = JUndefined
        and pin = JUndefined]
    query_objects_of_the_listings [where w = fresh and key = "''k1''" and base = BASE_URL and T = accept_all
        and user = "JStr ''u1''" and cid = "JStr ''c1''" and fid = JNull and lim = JUndefined
        and pin = JUndefined]
    query_objects_of_the_listings [where w = fresh and key = "''k1''" and base = BASE_URL and T = accept_all
        and user = "JStr ''u1''" and fid = JUndefined and lim = JUndefined
        and pin = JUndefined]
  by (simp add: fresh_def DifyClient_def)

text \<open>
  C4. On a ready client, \<open>createChatMessage\<close> issues one request whose body has the keys
  \<open>inputs\<close>, \<open>query\<close>, \<open>user\<close>, \<open>response_mode\<close> and \<open>files\<close>. When the
  \<open>conversationId\<close> argument is falsy (omitted, \<open>null\<close>, the empty string) the body has
  no \<open>conversation_id\<close> key at all; when it is truthy the body has the key, holding that
  value.
\<close>

theorem createChatMessage_conversation_id:
  assumes "to_string (apiKey (self w)) = Inr key"
    and "to_string (baseUrl (self w)) = Inr base"
  shows
  "length (sent (snd (createChatMessage T inputs query user stream cid files w)))
      = Suc (length (sent w))
   \<and> fmlookup (own_props (req_data
        (last (sent (snd (createChatMessage T inputs query user stream cid files w))))))
      ''conversation_id'' = (if truthy cid then Some cid else None)
   \<and> fmdom (own_props (req_data
        (last (sent (snd (createChatMessage T inputs query user stream cid files w))))))
      = {|''inputs'', ''query'', ''user'', ''response_mode'', ''files''|}
        |\<union>| (if truthy cid then {|''conversation_id''|} else {||})
   \<and> fmlookup (own_props (req_data
        (last (sent (snd (createChatMessage T inputs query user stream cid files w))))))
      ''inputs'' = Some inputs
   \<and> fmlookup (own_props (req_data
        (last (sent (snd (createChatMessage T inputs query user stream cid files w))))))
      ''query'' = Some query
   \<and> fmlookup (own_props (req_data
        (last (sent (snd (createChatMessage T inputs query user stream cid files w))))))
      ''user'' = Some user
   \<and> fmlookup (own_props (req_data
        (last (sent (snd (createChatMessage T inputs query user stream cid files w))))))
      ''files'' = Some (dflt JNull files)
   \<and> ''conversation_id'' |\<notin>| fmdom (own_props (req_data
        (last (sent (snd (createChatMessage T inputs query user stream JUndefined files w))))))
   \<and> ''conversation_id'' |\<notin>| fmdom (own_props (req_data
        (last (sent (snd (createChatMessage T inputs query user stream JNull files w))))))
   \<and> ''conversation_id'' |\<notin>| fmdom (own_props (req_data
        (last (sent (snd (createChatMessage T inputs query user stream (JStr []) files w))))))"
  using assms
  by (auto simp add: createChatMessage_def createChatMessage_call_def dispatch_def
      sendRequest_sent Let_def truthy_dflt_id)

theorem createChatMessage_conversation_id_witness:
  "fmlookup (own_props (req_data (last (sent (snd
       (createChatMessage accept_all JNull (JStr ''hi'') (JStr ''u1'') JUndefined
          (JStr ''c1'') JUndefined fresh)))))) ''conversation_id'' = Some (JStr ''c1'')
   \<and> fmlookup (own_props (req_data (last (sent (snd
       (createChatMessage accept_all JNull (JStr ''hi'') (JStr ''u1'') JUndefined
          (JStr []) JUndefined fresh)))))) ''conversation_id'' = None"
  using createChatMessage_conversation_id [where w = fresh and key = "''k1''" and base = BASE_URL and T = accept_all
        and inputs = JNull and query = "JStr ''hi''" and user = "JStr ''u1''"
        and stream = JUndefined and cid = "JStr ''c1''" and files = JUndefined]
    createChatMessage_conversation_id [where w = fresh and key = "''k1''" and base = BASE_URL and T = accept_all
        and inputs = JNull and query = "JStr ''hi''" and user = "JStr ''u1''"
        and stream = JUndefined and cid = "JStr []" and files = JUndefined]
  by (simp add: fresh_def DifyClient_def)


section \<open>Headers\<close>

text \<open>
  C5. When the key, the base URL and the endpoint convert to strings, \<open>sendRequest\<close>
  issues one request, and its headers are the two defaults, \<open>Authorization\<close> holding
  \<open>Bearer\<close> and the key and \<open>Content-Type\<close> holding \<open>application/json\<close>,
  overridden key by key by the extra headers: by the spread properties of whatever is
  passed, by the mapping itself when an object is passed, by nothing when the argument
  is omitted. For \<open>fileUpload\<close> the headers are exactly \<open>Authorization\<close> and
  \<open>Content-Type\<close>, the latter holding \<open>multipart/form-data\<close>, and no header holds
  \<open>application/json\<close>.
\<close>

theorem sendRequest_headers:
  assumes "to_string (apiKey (self w)) = Inr key"
    and "to_string (baseUrl (self w)) = Inr base"
    and "to_string (arg_endpoint a) = Inr path"
  shows
  "length (sent (snd (sendRequest T a w))) = Suc (length (sent w))
   \<and> fmlookup (req_headers (last (sent (snd (sendRequest T a w))))) =
     map_of [(''Authorization'', JStr (''Bearer '' @ key)),
             (''Content-Type'', JStr ''application/json'')]
     ++ fmlookup (own_props (dflt (JObj fmempty) (arg_headerParams a)))
   \<and> fmlookup (req_headers (last (sent (snd
        (sendRequest T (a\<lparr>arg_headerParams := JObj extraHeaders\<rparr>) w))))) =
     map_of [(''Authorization'', JStr (''Bearer '' @ key)),
             (''Content-Type'', JStr ''application/json'')]
     ++ fmlookup extraHeaders
   \<and> fmlookup (req_headers (last (sent (snd
        (sendRequest T (a\<lparr>arg_headerParams := JUndefined\<rparr>) w))))) =
     map_of [(''Authorization'', JStr (''Bearer '' @ key)),
             (''Content-Type'', JStr ''application/json'')]
   \<and> length (sent (snd (fileUpload T data w))) = Suc (length (sent w))
   \<and> fmlookup (req_headers (last (sent (snd (fileUpload T data w))))) ''Content-Type''
       = Some (JStr ''multipart/form-data'')
   \<and> fmlookup (req_headers (last (sent (snd (fileUpload T data w))))) ''Authorization''
       = Some (JStr (''Bearer '' @ key))
   \<and> fmdom (req_headers (last (sent (snd (fileUpload T data w)))))
       = {|''Authorization'', ''Content-Type''|}
   \<and> (\<forall>k. fmlookup (req_headers (last (sent (snd (fileUpload T data w))))) k
         \<noteq> Some (JStr ''application/json''))"
  using assms
  by (intro conjI ext allI)
    (auto simp add: sendRequest_sent fileUpload_def fileUpload_call_def dispatch_def
      map_add_def fmlookup_dom_iff split: option.splits)

theorem sendRequest_headers_witness:
  "fmlookup (req_headers (last (sent (snd (sendRequest accept_all override_call fresh)))))
       ''Authorization'' = Some (JStr ''Basic abc'')
   \<and> fmlookup (req_headers (last (sent (snd (sendRequest accept_all override_call fresh)))))
       ''Content-Type'' = Some (JStr ''application/json'')
   \<and> fmlookup (req_headers (last (sent (snd (fileUpload accept_all JNull fresh)))))
       ''Content-Type'' = Some (JStr ''multipart/form-data'')"
  using sendRequest_headers [where w = fresh and key = "''k1''" and base = BASE_URL and T = accept_all
        and a = override_call and path = "''/parameters''" and data = JNull]
  by (simp add: fresh_def DifyClient_def override_call_def map_add_def)


section \<open>Methods, paths and bodies\<close>

text \<open>
  C6. The registry gives the methods and paths of the interface table:
  \<open>GET /parameters\<close>, \<open>POST /messages/{message_id}/feedbacks\<close>,
  \<open>POST /completion-messages\<close>, \<open>POST /chat-messages\<close>, \<open>GET /messages\<close>,
  \<open>GET /conversations\<close>, \<open>POST /conversations/{conversation_id}/name\<close>,
  \<open>DELETE /conversations/{conversation_id}\<close>, \<open>POST /files/upload\<close> and
  \<open>POST /workflows/run\<close>. A path parameter is inserted by string conversion and
  concatenation only, so a string identifier appears in the path as it is, whatever
  characters it has. On a ready client, and with identifiers that convert to strings,
  each of the ten operations issues one request, with the method of the table, to the
  base URL followed by the path of the table. \<open>renameConversation\<close> issues exactly the
  request \<open>POST\<close> to the base URL followed by \<open>/conversations/\<close>, the identifier and
  \<open>/name\<close> with the body \<open>{name, user, auto_generate}\<close>; \<open>deleteConversation\<close>
  issues exactly the request \<open>DELETE\<close> to the base URL followed by
  \<open>/conversations/\<close> and the identifier with the body \<open>{user}\<close>.
\<close>

theorem registry_methods_and_paths:
  assumes "to_string (apiKey (self w)) = Inr key"
    and "to_string (baseUrl (self w)) = Inr base"
    and "to_string mid = Inr m"
    and "to_string cid = Inr c"
  shows
  "route_method (routes Application) = ''GET''
   \<and> route_url (routes Application) [] = Inr ''/parameters''
   \<and> route_method (routes Feedback) = ''POST''
   \<and> route_url (routes Feedback) [mid] = Inr (''/messages/'' @ m @ ''/feedbacks'')
   \<and> route_method (routes CreateCompletionMessage) = ''POST''
   \<and> route_url (routes CreateCompletionMessage) [] = Inr ''/completion-messages''
   \<and> route_method (routes CreateChatMessage) = ''POST''
   \<and> route_url (routes CreateChatMessage) [] = Inr ''/chat-messages''
   \<and> route_method (routes GetConversationMessages) = ''GET''
   \<and> route_url (routes GetConversationMessages) [] = Inr ''/messages''
   \<and> route_method (routes GetConversations) = ''GET''
   \<and> route_url (routes GetConversations) [] = Inr ''/conversations''
   \<and> route_method (routes RenameConversation) = ''POST''
   \<and> route_url (routes RenameConversation) [cid] = Inr (''/conversations/'' @ c @ ''/name'')
   \<and> route_method (routes DeleteConversation) = ''DELETE''
   \<and> route_url (routes DeleteConversation) [cid] = Inr (''/conversations/'' @ c)
   \<and> route_method (routes FileUpload) = ''POST''
   \<and> route_url (routes FileUpload) [] = Inr ''/files/upload''
   \<and> route_method (routes RunWorkflow) = ''POST''
   \<and> route_url (routes RunWorkflow) [] = Inr ''/workflows/run''
   \<and> route_url (routes Feedback) [JStr s] = Inr (''/messages/'' @ s @ ''/feedbacks'')
   \<and> route_url (routes RenameConversation) [JStr s] = Inr (''/conversations/'' @ s @ ''/name'')
   \<and> route_url (routes DeleteConversation) [JStr s] = Inr (''/conversations/'' @ s)
   \<and> route_url (routes RenameConversation) [JStr ''a/b?x=1 #'']
       = Inr ''/conversations/a/b?x=1 #/name''
   \<and> length (sent (snd (getApplicationParameters T user w))) = Suc (length (sent w))
   \<and> req_method (last (sent (snd (getApplicationParameters T user w)))) = JStr ''GET''
   \<and> req_url (last (sent (snd (getApplicationParameters T user w)))) = base @ ''/parameters''
   \<and> length (sent (snd (messageFeedback T mid rating user w))) = Suc (length (sent w))
   \<and> req_method (last (sent (snd (messageFeedback T mid rating user w)))) = JStr ''POST''
   \<and> req_url (last (sent (snd (messageFeedback T mid rating user w))))
       = base @ ''/messages/'' @ m @ ''/feedbacks''
   \<and> length (sent (snd (createCompletionMessage T inputs user stream files w)))
       = Suc (length (sent w))
   \<and> req_method (last (sent (snd (createCompletionMessage T inputs user stream files w))))
       = JStr ''POST''
   \<and> req_url (last (sent (snd (createCompletionMessage T inputs user stream files w))))
       = base @ ''/completion-messages''
   \<and> length (sent (snd (createChatMessage T inputs query user stream conv files w)))
       = Suc (length (sent w))
   \<and> req_method (last (sent (snd (createChatMessage T inputs query user stream conv files w))))
       = JStr ''POST''
   \<and> req_url (last (sent (snd (createChatMessage T inputs query user stream conv files w))))
       = base @ ''/chat-messages''
   \<and> length (sent (snd (getConversationMessages T user conv fid lim w)))
       = Suc (length (sent w))
   \<and> req_method (last (sent (snd (getConversationMessages T user conv fid lim w))))
       = JStr ''GET''
   \<and> req_url (last (sent (snd (getConversationMessages T user conv fid lim w))))
       = base @ ''/messages''
   \<and> length (sent (snd (getConversations T user fid lim pin w))) = Suc (length (sent w))
   \<and> req_method (last (sent (snd (getConversations T user fid lim pin w)))) = JStr ''GET''
   \<and> req_url (last (sent (snd (getConversations T user fid lim pin w))))
       = base @ ''/conversations''
   \<and> length (sent (snd (fileUpload T formData w))) = Suc (length (sent w))
   \<and> req_method (last (sent (snd (fileUpload T formData w)))) = JStr ''POST''
   \<and> req_url (last (sent (snd (fileUpload T formData w)))) = base @ ''/files/upload''
   \<and> length (sent (snd (runWorkflow T inputs user stream files w))) = Suc (length (sent w))
   \<and> req_method (last (sent (snd (runWorkflow T inputs user stream files w)))) = JStr ''POST''
   \<and> req_url (last (sent (snd (runWorkflow T inputs user stream files w))))
       = base @ ''/workflows/run''
   \<and> sent (snd (renameConversation T cid name user autoGenerate w))
       = sent w @
         [\<lparr>req_method = JStr ''POST'',
           req_url = base @ ''/conversations/'' @ c @ ''/name'',
           req_data = JObj (fmap_of_list
             [(''name'', name), (''user'', user), (''auto_generate'', autoGenerate)]),
           req_params = JNull,
           req_headers = fmap_of_list
             [(''Authorization'', JStr (''Bearer '' @ key)),
              (''Content-Type'', JStr ''application/json'')],
           req_responseType = ''json''\<rparr>]
   \<and> sent (snd (deleteConversation T cid user w))
       = sent w @
         [\<lparr>req_method = JStr ''DELETE'',
           req_url = base @ ''/conversations/'' @ c,
           req_data = JObj (fmap_of_list [(''user'', user)]),
           req_params = JNull,
           req_headers = fmap_of_list
             [(''Authorization'', JStr (''Bearer '' @ key)),
              (''Content-Type'', JStr ''application/json'')],
           req_responseType = ''json''\<rparr>]"
  using assms
  by (simp add: getApplicationParameters_def getApplicationParameters_call_def
      messageFeedback_def messageFeedback_call_def
      createCompletionMessage_def createCompletionMessage_call_def
      createChatMessage_def createChatMessage_call_def
      getConversationMessages_def getConversationMessages_call_def
      getConversations_def getConversations_call_def
      renameConversation_def renameConversation_call_def
      deleteConversation_def deleteConversation_call_def
      fileUpload_def fileUpload_call_def runWorkflow_def runWorkflow_call_def
      dispatch_def sendRequest_sent param_def Let_def)

theorem registry_methods_and_paths_witness:
  "sent (snd (renameConversation accept_all (JStr ''c1'') (JStr ''New'') (JStr ''u1'')
       (JBool True) fresh))
     = [\<lparr>req_method = JStr ''POST'',
         req_url = ''https://api.dify.ai/v1/conversations/c1/name'',
         req_data = JObj (fmap_of_list
           [(''name'', JStr ''New''), (''user'', JStr ''u1''),
            (''auto_generate'', JBool True)]),
         req_params = JNull,
         req_headers = fmap_of_list
           [(''Authorization'', JStr ''Bearer k1''),
            (''Content-Type'', JStr ''application/json'')],
         req_responseType = ''json''\<rparr>]
   \<and> req_url (last (sent (snd (messageFeedback accept_all (JStr ''m1'') JNull (JStr ''u1'')
       fresh)))) = ''https://api.dify.ai/v1/messages/m1/feedbacks''"
  using registry_methods_and_paths [where w = fresh and key = "''k1''" and base = BASE_URL and T = accept_all
        and mid = "JStr ''m1''" and m = "''m1''" and cid = "JStr ''c1''" and c = "''c1''"
        and name = "JStr ''New''" and user = "JStr ''u1''" and autoGenerate = "JBool True"
        and rating = JNull]
  by (simp add: fresh_def DifyClient_def BASE_URL_def)

text \<open>
  C8. On a ready client, \<open>runWorkflow\<close> issues one request whose body has exactly the
  keys \<open>inputs\<close>, \<open>user\<close> and \<open>response_mode\<close>, and no \<open>files\<close> key, whatever is
  passed as \<open>files\<close>. \<open>createCompletionMessage\<close> issues one request whose body has a
  \<open>files\<close> key holding the \<open>files\<close> argument (\<open>null\<close> when it is omitted).
\<close>

theorem runWorkflow_body_has_no_files:
  assumes "to_string (apiKey (self w)) = Inr key"
    and "to_string (baseUrl (self w)) = Inr base"
  shows
  "length (sent (snd (runWorkflow T inputs user stream files w))) = Suc (length (sent w))
   \<and> fmdom (own_props (req_data
        (last (sent (snd (runWorkflow T inputs user stream files w))))))
     = {|''inputs'', ''user'', ''response_mode''|}
   \<and> ''files'' |\<notin>| fmdom (own_props (req_data
        (last (sent (snd (runWorkflow T inputs user stream files w))))))
   \<and> fmlookup (own_props (req_data
        (last (sent (snd (runWorkflow T inputs user stream files w)))))) ''inputs''
       = Some inputs
   \<and> fmlookup (own_props (req_data
        (last (sent (snd (runWorkflow T inputs user stream files w)))))) ''user''
       = Some user
   \<and> length (sent (snd (createCompletionMessage T inputs user stream files w)))
       = Suc (length (sent w))
   \<and> fmlookup (own_props (req_data
        (last (sent (snd (createCompletionMessage T inputs user stream files w))))))
        ''files'' = Some (dflt JNull files)
   \<and> fmlookup (own_props (req_data
        (last (sent (snd (createCompletionMessage T inputs user stream (JArr fs) w))))))
        ''files'' = Some (JArr fs)"
  using assms
  by (simp add: runWorkflow_call_def createCompletionMessage_call_def runWorkflow_def
      createCompletionMessage_def dispatch_def sendRequest_sent Let_def)

theorem runWorkflow_body_has_no_files_witness:
  "fmdom (own_props (req_data (last (sent (snd
       (runWorkflow accept_all JNull (JStr ''u1'') JUndefined (JArr [JStr ''f1'']) fresh))))))
     = {|''inputs'', ''user'', ''response_mode''|}
   \<and> fmlookup (own_props (req_data (last (sent (snd
       (createCompletionMessage accept_all JNull (JStr ''u1'') JUndefined
          (JArr [JStr ''f1'']) fresh)))))) ''files'' = Some (JArr [JStr ''f1''])"
  using runWorkflow_body_has_no_files [where w = fresh and key = "''k1''" and base = BASE_URL and T = accept_all
        and inputs = JNull and user = "JStr ''u1''" and stream = JUndefined
        and files = "JArr [JStr ''f1'']"]
  by (simp add: fresh_def DifyClient_def)


section \<open>Transport outcomes and the client state\<close>

text \<open>
  C9. When the key, the base URL and the endpoint convert to strings, so that the
  transport is reached, a call of \<open>sendRequest\<close> issues exactly one request to the
  transport, and its outcome is the outcome the transport gave for that request. In
  particular, when the transport rejects with an error \<open>e\<close>, the promise is rejected
  with the same \<open>e\<close>: nothing is retried, caught or wrapped.
\<close>

theorem sendRequest_passes_outcome_on:
  assumes "to_string (apiKey (self w)) = Inr key"
    and "to_string (baseUrl (self w)) = Inr base"
    and "to_string (arg_endpoint a) = Inr path"
  shows
  "\<exists>req. sent (snd (sendRequest T a w)) = sent w @ [req]
     \<and> fst (sendRequest T a w)
         = (case T (sent w) req of Inl e \<Rightarrow> Rejected (Inr e) | Inr r \<Rightarrow> Fulfilled r)
     \<and> (\<forall>e. T (sent w) req = Inl e \<longrightarrow> fst (sendRequest T a w) = Rejected (Inr e))"
  using assms by (simp add: sendRequest_def axios_def await_def Let_def)

theorem sendRequest_passes_outcome_on_witness:
  "fst (sendRequest reject_all override_call fresh) = Rejected (Inr (JStr ''status 500''))
   \<and> length (sent (snd (sendRequest reject_all override_call fresh))) = 1"
  using sendRequest_passes_outcome_on [where w = fresh and key = "''k1''" and base = BASE_URL and T = reject_all
        and a = override_call and path = "''/parameters''"]
  by (auto simp add: fresh_def DifyClient_def override_call_def reject_all_def)

text \<open>
  C10. After \<open>sendRequest\<close> and after every operation of the base, completion and chat
  clients, the client instance, that is its \<open>apiKey\<close> and its \<open>baseUrl\<close>, is what it
  was before the call, whatever the transport answers.
\<close>

theorem operations_keep_client_state:
  "self (snd (sendRequest T a w)) = self w
   \<and> apiKey (self (snd (sendRequest T a w))) = apiKey (self w)
   \<and> baseUrl (self (snd (sendRequest T a w))) = baseUrl (self w)
   \<and> self (snd (messageFeedback T mid rating user w)) = self w
   \<and> self (snd (getApplicationParameters T user w)) = self w
   \<and> self (snd (fileUpload T formData w)) = self w
   \<and> self (snd (createCompletionMessage T inputs user stream files w)) = self w
   \<and> self (snd (runWorkflow T inputs user stream files w)) = self w
   \<and> self (snd (createChatMessage T inputs query user stream cid files w)) = self w
   \<and> self (snd (getConversationMessages T user cid fid lim w)) = self w
   \<and> self (snd (getConversations T user fid lim pin w)) = self w
   \<and> self (snd (renameConversation T cid name user autoGenerate w)) = self w
   \<and> self (snd (deleteConversation T cid user w)) = self w"
  by (simp add: sendRequest_self dispatch_self messageFeedback_def
      getApplicationParameters_def
      fileUpload_def createCompletionMessage_def runWorkflow_def createChatMessage_def
      getConversationMessages_def getConversations_def renameConversation_def
      deleteConversation_def)


section \<open>The credential over a sequence of calls\<close>

lemma step_dispatch: "call_of c = Some x \<Longrightarrow> step T c w = snd (dispatch T x w)"
  by (cases c)
    (auto simp add: dispatch_def messageFeedback_def getApplicationParameters_def
      fileUpload_def createCompletionMessage_def runWorkflow_def createChatMessage_def
      getConversationMessages_def getConversations_def renameConversation_def
      deleteConversation_def)

lemma step_client:
  "self (step T c w) =
     (case c of Do_updateApiKey k \<Rightarrow> (self w)\<lparr>apiKey := k\<rparr> | _ \<Rightarrow> self w)"
  by (cases c)
    (simp_all add: updateApiKey_def sendRequest_self dispatch_self messageFeedback_def
      getApplicationParameters_def
      fileUpload_def createCompletionMessage_def runWorkflow_def createChatMessage_def
      getConversationMessages_def getConversations_def renameConversation_def
      deleteConversation_def)

lemma run_Cons: "run T (c # cs) w = run T cs (step T c w)"
  by (simp add: run_def)

text \<open>The key the client holds after a sequence of calls is the key most recently set.\<close>

lemma run_apiKey: "apiKey (self (run T cmds w)) = latest_key (apiKey (self w)) cmds"
proof (induction cmds arbitrary: w)
  case Nil
  show ?case by (simp add: run_def)
next
  case (Cons c cs)
  show ?case
    unfolding run_Cons Cons.IH
    by (cases c) (simp_all add: step_client del: step.simps)
qed

lemma run_baseUrl: "baseUrl (self (run T cmds w)) = baseUrl (self w)"
proof (induction cmds arbitrary: w)
  case Nil
  show ?case by (simp add: run_def)
next
  case (Cons c cs)
  show ?case
    unfolding run_Cons Cons.IH
    by (cases c) (simp_all add: step_client del: step.simps)
qed

text \<open>None of the ten operations passes an \<open>Authorization\<close> among its extra headers.\<close>

lemma named_calls_keep_authorization:
  assumes "call_of c = Some (Inr a)" and "\<forall>a'. c \<noteq> Do_sendRequest a'"
  shows "\<not> overrides_authorization a"
  using assms
  by (cases c)
    (auto simp add: overrides_authorization_def messageFeedback_call_def
      getApplicationParameters_call_def fileUpload_call_def createCompletionMessage_call_def
      runWorkflow_call_def createChatMessage_call_def getConversationMessages_call_def
      getConversations_call_def renameConversation_call_def deleteConversation_call_def
      Let_def split: sum.splits)

text \<open>
  C7. The specification states that over every sequence of \<open>updateApiKey\<close> calls and
  dispatched operations, the \<open>Authorization\<close> header of each request is \<open>Bearer\<close>
  followed by the key most recently set. The dispatcher lets the extra headers override
  every default, the \<open>Authorization\<close> included, so a direct call of \<open>sendRequest\<close>
  that passes its own \<open>Authorization\<close> sends that one: on a fresh client holding \<open>k1\<close>
  the request carries \<open>Basic abc\<close>, not \<open>Bearer k1\<close>.
\<close>

theorem authorization_overridden_by_extra_headers:
  "authorization (last (sent (step accept_all (Do_sendRequest override_call)
       (run accept_all [] fresh)))) = Some (JStr ''Basic abc'')
   \<and> to_string (latest_key (apiKey (self fresh)) []) = Inr ''k1''
   \<and> authorization (last (sent (step accept_all (Do_sendRequest override_call)
       (run accept_all [] fresh)))) \<noteq> Some (JStr (''Bearer '' @ ''k1''))"
  by (simp add: run_def sendRequest_def axios_def await_def spread_def authorization_def
      override_call_def fresh_def DifyClient_def Let_def)

text \<open>
  C7, as amended. After every sequence \<open>pre\<close> of calls of any kind (\<open>updateApiKey\<close>,
  the ten operations, direct calls of \<open>sendRequest\<close>), consider a call that dispatches:
  one of the ten operations, or a direct call of \<open>sendRequest\<close> whose extra headers
  carry no \<open>Authorization\<close> of their own. If the key most recently set before it (the
  key the client held at the start when none was set), the base URL and the path of the
  call convert to strings, the call issues exactly one request, and the \<open>Authorization\<close>
  header of that request is \<open>Bearer\<close> followed by that key: the key is read at each
  call.
\<close>

theorem authorization_follows_latest_key:
  assumes key: "to_string (latest_key (apiKey (self w)) pre) = Inr key"
    and base: "to_string (baseUrl (self w)) = Inr base"
    and call: "call_of c = Some (Inr a)"
    and path: "to_string (arg_endpoint a) = Inr path"
    and own: "\<forall>a'. c = Do_sendRequest a' \<longrightarrow> \<not> overrides_authorization a'"
  shows "length (sent (step T c (run T pre w))) = Suc (length (sent (run T pre w)))
     \<and> authorization (last (sent (step T c (run T pre w)))) = Some (JStr (''Bearer '' @ key))"
proof -
  let ?w = "run T pre w"
  have k: "to_string (apiKey (self ?w)) = Inr key"
    using key by (simp add: run_apiKey)
  have b: "to_string (baseUrl (self ?w)) = Inr base"
    using base by (simp add: run_baseUrl)
  have s: "step T c ?w = snd (sendRequest T a ?w)"
    using step_dispatch [OF call] by (simp add: dispatch_def)
  have n: "\<not> overrides_authorization a"
  proof (cases "\<exists>a'. c = Do_sendRequest a'")
    case True
    then show ?thesis using call own by auto
  next
    case False
    then show ?thesis using named_calls_keep_authorization [OF call] by blast
  qed
  show ?thesis
    using n unfolding s sendRequest_sent [OF k b path]
    by (simp add: authorization_def overrides_authorization_def)
qed

theorem authorization_follows_latest_key_witness:
  "authorization (last (sent (step accept_all (Do_deleteConversation (JStr ''c1'') (JStr ''u1''))
     (run accept_all
       [Do_getApplicationParameters (JStr ''u1''),
        Do_updateApiKey (JStr ''k2''),
        Do_sendRequest override_call,
        Do_updateApiKey unprintable,
        Do_fileUpload JNull,
        Do_updateApiKey (JStr ''k4'')]
       fresh)))) = Some (JStr ''Bearer k4'')"
  using authorization_follows_latest_key [where w = fresh and key = "''k4''" and base = BASE_URL and T = accept_all
        and pre = "[Do_getApplicationParameters (JStr ''u1''),
        Do_updateApiKey (JStr ''k2''),
        Do_sendRequest override_call,
        Do_updateApiKey unprintable,
        Do_fileUpload JNull,
        Do_updateApiKey (JStr ''k4'')]"
        and c = "Do_deleteConversation (JStr ''c1'') (JStr ''u1'')"
        and a = "\<lparr>arg_method = JStr ''DELETE'', arg_endpoint = JStr ''/conversations/c1'',
                arg_data = JObj (fmap_of_list [(''user'', JStr ''u1'')]),
                arg_params = JUndefined, arg_stream = JUndefined,
                arg_headerParams = JUndefined\<rparr>"
        and path = "''/conversations/c1''"]
  by (simp add: fresh_def DifyClient_def deleteConversation_call_def param_def
      del: step.simps)

end
